theory Spec2Isabelle
  imports Complex_Main "HOL-Library.Word"
begin

section \<open>LockBox API: the in-memory store and its four handlers\<close>

text \<open>
  The program is \<^verbatim>\<open>src/app/main.py\<close>: two module-level dictionaries, \<^verbatim>\<open>GAMES\<close> and
  \<^verbatim>\<open>PICKS\<close>, a module-level constant \<^verbatim>\<open>CRON_SECRET\<close>, and four request handlers.
  The handlers are embedded as they are written: they take the validated
  \<^verbatim>\<open>UpsertPayload\<close> object and the value of the \<^verbatim>\<open>X-Cron-Secret\<close> header. Around them, the
  embedding has what the declarations of the source ask the framework to do with the
  values of a request body after JSON decoding: the classes \<^verbatim>\<open>Pick\<close> and \<^verbatim>\<open>Game\<close> validate the
  fields and apply the defaults, and \<^verbatim>\<open>response_model=List[Pick]\<close> turns the records a list
  handler returns into JSON. The handlers contain no \<^verbatim>\<open>await\<close>, so each one runs to completion
  once it is entered.
\<close>

subsection \<open>Values\<close>

text \<open>
  A Python \<^verbatim>\<open>float\<close> is an IEEE 754 double: 64 bits, of which the highest is the sign, the
  next 11 the biased exponent and the lowest 52 the fraction. The handlers store floats
  and hand them back; nothing in the source computes with them.
\<close>

type_synonym pyfloat = "64 word"






abbreviation float_0_60 :: pyfloat where "float_0_60 \<equiv> 0x3FE3333333333333"
abbreviation float_0_70 :: pyfloat where "float_0_70 \<equiv> 0x3FE6666666666666"

text \<open>
  A number of a decoded JSON body is a Python \<^verbatim>\<open>int\<close> (a literal with no fraction and no
  exponent) or a Python \<^verbatim>\<open>float\<close>.
\<close>

datatype number = NumInt int | NumFloat pyfloat







text \<open>The values that occur in the dictionaries the handlers return.\<close>

datatype pyval = PyBool bool | PyInt int

text \<open>\<^verbatim>\<open>raise HTTPException(status_code, detail)\<close>\<close>

datatype HTTPException = HTTPException int string

subsection \<open>The models: \<^verbatim>\<open>Pick\<close>, \<^verbatim>\<open>Game\<close>, \<^verbatim>\<open>UpsertPayload\<close>\<close>

record Pick =
  id :: string
  league :: string
  game_id :: string
  market :: string
  selection :: string
  posted_line :: "pyfloat option"
  posted_odds :: "int option"
  tier :: string
  hit_prob :: pyfloat
  play_to :: "string option"
  rationale :: "string list"

record Game =
  id :: string
  league :: string
  home :: string
  away :: string
  kickoff_at :: string
  market_spread :: "string option"
  market_total :: "pyfloat option"
  fair_spread :: "pyfloat option"
  fair_total :: "pyfloat option"
  weather :: "string option"
  "notes" :: "string list"

record UpsertPayload =
  games :: "Game list"
  picks :: "Pick list"

text \<open>
  The classes declare defaults for their optional fields:
  \<^verbatim>\<open>
  class Pick(BaseModel):
      id: str; league: str; game_id: str; market: str; selection: str
      posted_line: float | None = None; posted_odds: int | None = None
      tier: str = "A"; hit_prob: float = 0.55; play_to: Optional[str] = None
      rationale: List[str] = []
  class Game(BaseModel):
      id: str; league: str; home: str; away: str; kickoff_at: str
      market_spread: Optional[str] = None; market_total: Optional[float] = None
      fair_spread: Optional[float] = None; fair_total: Optional[float] = None
      weather: Optional[str] = None; notes: List[str] = []
  class UpsertPayload(BaseModel):
      games: List[Game] = []; picks: List[Pick] = []
  \<close>
  The fields a caller supplies when a model object is built, as the values that JSON
  decoding gives. A field that the class declares with a default may be omitted: \<open>None\<close>
  stands for an omitted field. For a field declared \<^verbatim>\<open>Optional[...] = None\<close> an omitted
  field and an explicit null give the same object, so one \<open>None\<close> covers both. A field
  declared \<^verbatim>\<open>float\<close> is given a number, \<^verbatim>\<open>int\<close> or \<^verbatim>\<open>float\<close>; a field declared \<^verbatim>\<open>str\<close> is given
  a string and \<^verbatim>\<open>posted_odds\<close> an \<^verbatim>\<open>int\<close>.
\<close>

record Pick_kwargs =
  id :: string
  league :: string
  game_id :: string
  market :: string
  selection :: string
  posted_line :: "number option"
  posted_odds :: "int option"
  tier :: "string option"
  hit_prob :: "number option"
  play_to :: "string option"
  rationale :: "string list option"

record Game_kwargs =
  id :: string
  league :: string
  home :: string
  away :: string
  kickoff_at :: string
  market_spread :: "string option"
  market_total :: "number option"
  fair_spread :: "number option"
  fair_total :: "number option"
  weather :: "string option"
  "notes" :: "string list option"

record UpsertPayload_kwargs =
  games :: "Game list option"
  picks :: "Pick list option"

text \<open>\<^verbatim>\<open>value if the field was supplied, else the declared default\<close>\<close>

definition field_default :: "'a \<Rightarrow> 'a option \<Rightarrow> 'a" where
  "field_default d supplied = (case supplied of None \<Rightarrow> d | Some v \<Rightarrow> v)"







definition UpsertPayload_init :: "UpsertPayload_kwargs \<Rightarrow> UpsertPayload" where
  "UpsertPayload_init kw =
     \<lparr>UpsertPayload.games = field_default [] (UpsertPayload_kwargs.games kw),
      UpsertPayload.picks = field_default [] (UpsertPayload_kwargs.picks kw)\<rparr>"

subsection \<open>Python dictionaries\<close>

text \<open>
  A \<^verbatim>\<open>dict\<close> keeps its keys in the order of their first insertion, and
  \<^verbatim>\<open>list(d.values())\<close> follows that order. So a dictionary is the list of its items.
  \<^verbatim>\<open>d[k] = v\<close> replaces the value of a key that is present, in place, and appends the item
  otherwise.
\<close>

type_synonym ('k, 'v) dict = "('k \<times> 'v) list"

fun dict_setitem :: "('k, 'v) dict \<Rightarrow> 'k \<Rightarrow> 'v \<Rightarrow> ('k, 'v) dict" where
  "dict_setitem [] k v = [(k, v)]"
| "dict_setitem ((k', v') # d) k v =
     (if k' = k then (k', v) # d else (k', v') # dict_setitem d k v)"

definition dict_get :: "('k, 'v) dict \<Rightarrow> 'k \<Rightarrow> 'v option" where
  "dict_get d k = map_of d k"

definition dict_values :: "('k, 'v) dict \<Rightarrow> 'v list" where
  "dict_values d = map snd d"

definition dict_keys :: "('k, 'v) dict \<Rightarrow> 'k list" where
  "dict_keys d = map fst d"

definition len :: "('k, 'v) dict \<Rightarrow> int" where
  "len d = int (length d)"

text \<open>
  What every Python dictionary satisfies (no key occurs twice), together with what the
  store adds: a record is filed under its own \<open>id\<close>.
\<close>

definition keyed_by :: "('v \<Rightarrow> 'k) \<Rightarrow> ('k, 'v) dict \<Rightarrow> bool" where
  "keyed_by key d = (distinct (dict_keys d) \<and> list_all (\<lambda>(k, v). key v = k) d)"

subsection \<open>Module state\<close>

record globals =
  CRON_SECRET :: string
  GAMES :: "(string, Game) dict"
  PICKS :: "(string, Pick) dict"

text \<open>
  \<^verbatim>\<open>CRON_SECRET = os.getenv("CRON_SECRET","change-me")\<close>, where
  \<^verbatim>\<open>os.getenv(key, default)\<close> reads the process environment.
\<close>

definition getenv :: "(string \<rightharpoonup> string) \<Rightarrow> string \<Rightarrow> string \<Rightarrow> string" where
  "getenv environ key dflt = (case environ key of None \<Rightarrow> dflt | Some v \<Rightarrow> v)"

text \<open>Running the module body once, at import.\<close>

definition startup :: "(string \<rightharpoonup> string) \<Rightarrow> globals" where
  "startup environ =
     \<lparr>CRON_SECRET = getenv environ ''CRON_SECRET'' ''change-me'', GAMES = [], PICKS = []\<rparr>"

subsection \<open>Handlers\<close>

text \<open>
  A handler takes the module state and returns what it returns or raises, with the module
  state it leaves behind. The source:
  \<^verbatim>\<open>
  async def health(): return {"ok": True, "picks": len(PICKS), "games": len(GAMES)}
  async def picks_today(): return list(PICKS.values())
  async def games_today(): return list(GAMES.values())
  async def ingest_upsert(payload: UpsertPayload, x_cron_secret: str | None = Header(default=None)):
      if x_cron_secret != CRON_SECRET: raise HTTPException(401, "invalid secret")
      for g in payload.games: GAMES[g.id] = g
      for p in payload.picks: PICKS[p.id] = p
      return {"ok": True, "games": len(GAMES), "picks": len(PICKS)}
  \<close>
  A returned dictionary literal is the list of its items, in the order written.
\<close>

type_synonym 'a handler = "globals \<Rightarrow> (HTTPException + 'a) \<times> globals"

definition health :: "(string \<times> pyval) list handler" where
  "health s =
     (Inr [(''ok'', PyBool True), (''picks'', PyInt (len (PICKS s))),
           (''games'', PyInt (len (GAMES s)))], s)"

definition picks_today :: "Pick list handler" where
  "picks_today s = (Inr (dict_values (PICKS s)), s)"

definition games_today :: "Game list handler" where
  "games_today s = (Inr (dict_values (GAMES s)), s)"

text \<open>\<^verbatim>\<open>for r in rs: d[r.id] = r\<close>\<close>

definition store_all :: "('v \<Rightarrow> 'k) \<Rightarrow> ('k, 'v) dict \<Rightarrow> 'v list \<Rightarrow> ('k, 'v) dict" where
  "store_all key d rs = foldl (\<lambda>d r. dict_setitem d (key r) r) d rs"

definition ingest_upsert :: "UpsertPayload \<Rightarrow> string option \<Rightarrow> (string \<times> pyval) list handler" where
  "ingest_upsert payload x_cron_secret s =
     (if x_cron_secret \<noteq> Some (CRON_SECRET s)
      then (Inl (HTTPException 401 ''invalid secret''), s)
      else
        let s1 = s\<lparr>GAMES := store_all Game.id (GAMES s) (UpsertPayload.games payload)\<rparr>;
            s2 = s1\<lparr>PICKS := store_all Pick.id (PICKS s1) (UpsertPayload.picks payload)\<rparr>
        in (Inr [(''ok'', PyBool True), (''games'', PyInt (len (GAMES s2))),
                 (''picks'', PyInt (len (PICKS s2)))], s2))"

subsection \<open>Responses of the list routes\<close>

text \<open>
  The list handlers are registered with a response model:
  \<^verbatim>\<open>
  @app.get("/picks/today", response_model=List[Pick])
  @app.get("/games/today", response_model=List[Game])
  \<close>
  so what a client receives is the JSON encoding of the records the handler returns: an
  object per record, with every field, in the order of declaration. A finite float is a
  JSON number; JSON has no infinity and no NaN, and a float that is one of them is encoded
  as null, as an absent optional value is.
\<close>

datatype json =
    JNull
  | JBool bool
  | JInt int
  | JFloat pyfloat
  | JStr string
  | JArr "json list"
  | JObj "(string \<times> json) list"












subsection \<open>Histories\<close>

text \<open>The requests a client can send.\<close>

datatype request =
    GetHealth
  | GetPicksToday
  | GetGamesToday
  | PostIngestUpsert UpsertPayload "string option"

fun handle :: "request \<Rightarrow> globals \<Rightarrow> globals" where
  "handle GetHealth s = snd (health s)"
| "handle GetPicksToday s = snd (picks_today s)"
| "handle GetGamesToday s = snd (games_today s)"
| "handle (PostIngestUpsert payload x_cron_secret) s = snd (ingest_upsert payload x_cron_secret s)"

definition serve :: "request list \<Rightarrow> globals \<Rightarrow> globals" where
  "serve rs s = foldl (\<lambda>s r. handle r s) s rs"

text \<open>The last record of a sequence that carries a given id, if there is one.\<close>

definition last_with :: "('v \<Rightarrow> 'k) \<Rightarrow> 'k \<Rightarrow> 'v list \<Rightarrow> 'v option" where
  "last_with key k rs = find (\<lambda>r. key r = k) (rev rs)"

text \<open>A history in which every request is an upsert carrying the configured secret.\<close>

definition authorized :: "string \<Rightarrow> UpsertPayload list \<Rightarrow> request list" where
  "authorized secret payloads = map (\<lambda>payload. PostIngestUpsert payload (Some secret)) payloads"

text \<open>A request that puts data into the store: an accepted upsert with a record in it.\<close>

fun carries_data :: "string \<Rightarrow> request \<Rightarrow> bool" where
  "carries_data secret (PostIngestUpsert payload x_cron_secret) =
     (x_cron_secret = Some secret \<and>
      (UpsertPayload.games payload \<noteq> [] \<or> UpsertPayload.picks payload \<noteq> []))"
| "carries_data secret _ = False"



subsection \<open>Sample requests\<close>

text \<open>The game of the specification's scenarios, with every optional field omitted.\<close>

definition game_g1_kwargs :: Game_kwargs where
  "game_g1_kwargs =
     \<lparr>Game_kwargs.id = ''g1'', Game_kwargs.league = ''NFL'', Game_kwargs.home = ''A'',
      Game_kwargs.away = ''B'', Game_kwargs.kickoff_at = ''2024-01-01T00:00:00Z'',
      Game_kwargs.market_spread = None, Game_kwargs.market_total = None,
      Game_kwargs.fair_spread = None, Game_kwargs.fair_total = None,
      Game_kwargs.weather = None, Game_kwargs.notes = None\<rparr>"

definition game_g1 :: Game where
  "game_g1 =
     \<lparr>Game.id = ''g1'', Game.league = ''NFL'', Game.home = ''A'', Game.away = ''B'',
      Game.kickoff_at = ''2024-01-01T00:00:00Z'', Game.market_spread = None,
      Game.market_total = None, Game.fair_spread = None, Game.fair_total = None,
      Game.weather = None, Game.notes = []\<rparr>"

text \<open>A pick \<open>p1\<close> with the given \<open>hit_prob\<close> and every other optional field omitted.\<close>

definition pick_p1_kwargs :: "number \<Rightarrow> Pick_kwargs" where
  "pick_p1_kwargs x =
     \<lparr>Pick_kwargs.id = ''p1'', Pick_kwargs.league = ''NFL'', Pick_kwargs.game_id = ''g1'',
      Pick_kwargs.market = ''spread'', Pick_kwargs.selection = ''A'',
      Pick_kwargs.posted_line = None, Pick_kwargs.posted_odds = None,
      Pick_kwargs.tier = None, Pick_kwargs.hit_prob = Some x,
      Pick_kwargs.play_to = None, Pick_kwargs.rationale = None\<rparr>"

definition pick_p1 :: "pyfloat \<Rightarrow> Pick" where
  "pick_p1 h =
     \<lparr>Pick.id = ''p1'', Pick.league = ''NFL'', Pick.game_id = ''g1'', Pick.market = ''spread'',
      Pick.selection = ''A'', Pick.posted_line = None, Pick.posted_odds = None,
      Pick.tier = ''A'', Pick.hit_prob = h, Pick.play_to = None, Pick.rationale = []\<rparr>"

section \<open>Properties of the dictionary operations\<close>

lemma dict_get_setitem: "dict_get (dict_setitem d k v) k' = (if k' = k then Some v else dict_get d k')"
  by (induction d) (auto simp: dict_get_def)

lemma dict_keys_setitem:
  "dict_keys (dict_setitem d k v) = (if k \<in> set (dict_keys d) then dict_keys d else dict_keys d @ [k])"
  by (induction d) (force simp: dict_keys_def)+

lemma set_setitem_subset: "set (dict_setitem d k v) \<subseteq> insert (k, v) (set d)"
  by (induction d) (auto split: if_splits)

lemma keyed_by_setitem: "keyed_by key d \<Longrightarrow> keyed_by key (dict_setitem d (key v) v)"
  using set_setitem_subset [of d "key v" v]
  by (auto simp: keyed_by_def dict_keys_setitem list_all_iff)

lemma store_all_snoc: "store_all key d (rs @ [r]) = dict_setitem (store_all key d rs) (key r) r"
  by (simp add: store_all_def)

lemma store_all_Nil: "store_all key d [] = d"
  by (simp add: store_all_def)

lemma store_all_append: "store_all key d (rs @ rs') = store_all key (store_all key d rs) rs'"
  by (simp add: store_all_def)

lemma last_with_snoc: "last_with key k (rs @ [r]) = (if key r = k then Some r else last_with key k rs)"
  by (simp add: last_with_def)

lemma last_with_Nil: "last_with key k [] = None"
  by (simp add: last_with_def)

lemma dict_get_store_all:
  "dict_get (store_all key d rs) k = (case last_with key k rs of None \<Rightarrow> dict_get d k | Some r \<Rightarrow> Some r)"
  by (induction rs rule: rev_induct) (auto simp: store_all_Nil store_all_snoc last_with_Nil last_with_snoc dict_get_setitem)

lemma keyed_by_store_all: "keyed_by key d \<Longrightarrow> keyed_by key (store_all key d rs)"
  by (induction rs rule: rev_induct) (simp_all add: store_all_Nil store_all_snoc keyed_by_setitem)

lemma set_keys_store_all: "set (dict_keys (store_all key d rs)) = set (dict_keys d) \<union> key ` set rs"
  by (induction rs rule: rev_induct) (auto simp: store_all_Nil store_all_snoc dict_keys_setitem)

lemma keys_store_all_present:
  "key ` set rs \<subseteq> set (dict_keys d) \<Longrightarrow> dict_keys (store_all key d rs) = dict_keys d"
  by (induction rs rule: rev_induct) (auto simp: store_all_Nil store_all_snoc dict_keys_setitem)

lemma dict_eqI:
  "distinct (dict_keys d) \<Longrightarrow> dict_keys d = dict_keys e \<Longrightarrow> (\<And>k. dict_get d k = dict_get e k) \<Longrightarrow> d = e"
proof (induction d arbitrary: e)
  case Nil
  then show ?case by (simp add: dict_keys_def)
next
  case (Cons a d)
  obtain k v where a: "a = (k, v)" by (cases a)
  from Cons.prems(2) a obtain w e' where e: "e = (k, w) # e'" and keys: "dict_keys d = dict_keys e'"
    by (cases e) (auto simp: dict_keys_def)
  from Cons.prems(3) [of k] a e have vw: "v = w" by (simp add: dict_get_def)
  from Cons.prems(1) a have knot: "k \<notin> set (dict_keys d)" and dist: "distinct (dict_keys d)"
    by (simp_all add: dict_keys_def)
  have "dict_get d k' = dict_get e' k'" for k'
  proof (cases "k' = k")
    case True
    from knot have "map_of d k = None"
      by (simp add: map_of_eq_None_iff dict_keys_def)
    moreover from knot keys have "k \<notin> set (dict_keys e')" by simp
    then have "map_of e' k = None"
      by (simp add: map_of_eq_None_iff dict_keys_def)
    ultimately show ?thesis using True by (simp add: dict_get_def)
  next
    case False
    with Cons.prems(3) [of k'] a e show ?thesis by (simp add: dict_get_def)
  qed
  with Cons.IH [OF dist keys] have "d = e'" by blast
  with a e vw show ?case by simp
qed

lemma store_all_twice:
  assumes "distinct (dict_keys d)"
  shows "store_all key (store_all key d rs) rs = store_all key d rs"
proof (rule dict_eqI)
  have "distinct (dict_keys (store_all key d rs))" for rs
    using assms by (induction rs rule: rev_induct) (auto simp: store_all_Nil store_all_snoc dict_keys_setitem)
  then show "distinct (dict_keys (store_all key (store_all key d rs) rs))"
    using assms by (simp add: keys_store_all_present set_keys_store_all)
  show "dict_keys (store_all key (store_all key d rs) rs) = dict_keys (store_all key d rs)"
    by (simp add: keys_store_all_present set_keys_store_all)
  show "dict_get (store_all key (store_all key d rs) rs) k = dict_get (store_all key d rs) k" for k
    by (simp add: dict_get_store_all split: option.splits)
qed

section \<open>Properties of the handlers\<close>

lemma ingest_upsert_accepted:
  "x_cron_secret = Some (CRON_SECRET s) \<Longrightarrow>
   ingest_upsert payload x_cron_secret s =
     (Inr [(''ok'', PyBool True),
           (''games'', PyInt (len (store_all Game.id (GAMES s) (UpsertPayload.games payload)))),
           (''picks'', PyInt (len (store_all Pick.id (PICKS s) (UpsertPayload.picks payload))))],
      s\<lparr>GAMES := store_all Game.id (GAMES s) (UpsertPayload.games payload),
        PICKS := store_all Pick.id (PICKS s) (UpsertPayload.picks payload)\<rparr>)"
  by (simp add: ingest_upsert_def Let_def)

lemma ingest_upsert_rejected:
  "x_cron_secret \<noteq> Some (CRON_SECRET s) \<Longrightarrow>
   ingest_upsert payload x_cron_secret s = (Inl (HTTPException 401 ''invalid secret''), s)"
  by (simp add: ingest_upsert_def)

lemma len_card_keys: "distinct (dict_keys d) \<Longrightarrow> len d = int (card (set (dict_keys d)))"
  using distinct_card [of "dict_keys d"] by (simp add: len_def dict_keys_def)

lemma distinct_keys_store_all: "distinct (dict_keys d) \<Longrightarrow> distinct (dict_keys (store_all key d rs))"
  by (induction rs rule: rev_induct) (auto simp: store_all_Nil store_all_snoc dict_keys_setitem)

lemma sample_values [simp]:
  "Pick.id (pick_p1 h) = ''p1''" "Pick.hit_prob (pick_p1 h) = h" "Game.id game_g1 = ''g1''"
  by (simp_all add: pick_p1_def game_g1_def)

lemma startup_empty_env [simp]:
  "startup Map.empty = \<lparr>CRON_SECRET = ''change-me'', GAMES = [], PICKS = []\<rparr>"
  by (simp add: startup_def getenv_def)

section \<open>Properties of histories\<close>

lemma serve_Nil: "serve [] s = s"
  by (simp add: serve_def)

lemma serve_Cons: "serve (r # rs) s = serve rs (handle r s)"
  by (simp add: serve_def)

lemma serve_append: "serve (rs @ rs') s = serve rs' (serve rs s)"
  by (simp add: serve_def)

lemma serve_snoc: "serve (rs @ [r]) s = handle r (serve rs s)"
  by (simp add: serve_def)

lemma handle_CRON_SECRET: "CRON_SECRET (handle r s) = CRON_SECRET s"
  by (cases r)
     (simp_all add: health_def picks_today_def games_today_def ingest_upsert_def Let_def)

lemma serve_CRON_SECRET: "CRON_SECRET (serve rs s) = CRON_SECRET s"
  by (induction rs rule: rev_induct) (simp_all add: serve_Nil serve_snoc handle_CRON_SECRET)

lemma handle_accepted:
  "handle (PostIngestUpsert payload (Some (CRON_SECRET s))) s =
     s\<lparr>GAMES := store_all Game.id (GAMES s) (UpsertPayload.games payload),
       PICKS := store_all Pick.id (PICKS s) (UpsertPayload.picks payload)\<rparr>"
  by (simp add: ingest_upsert_accepted)

lemma serve_authorized:
  "serve (authorized (CRON_SECRET s) payloads) s =
     s\<lparr>GAMES := store_all Game.id (GAMES s) (concat (map UpsertPayload.games payloads)),
       PICKS := store_all Pick.id (PICKS s) (concat (map UpsertPayload.picks payloads))\<rparr>"
proof (induction payloads rule: rev_induct)
  case Nil
  then show ?case by (simp add: authorized_def serve_Nil store_all_Nil)
next
  case (snoc payload payloads)
  let ?s' = "serve (authorized (CRON_SECRET s) payloads) s"
  have sec: "CRON_SECRET s = CRON_SECRET ?s'"
    by (simp add: serve_CRON_SECRET)
  have "serve (authorized (CRON_SECRET s) (payloads @ [payload])) s =
          handle (PostIngestUpsert payload (Some (CRON_SECRET ?s'))) ?s'"
    using sec by (simp add: authorized_def serve_snoc)
  also have "\<dots> = ?s'\<lparr>GAMES := store_all Game.id (GAMES ?s') (UpsertPayload.games payload),
       PICKS := store_all Pick.id (PICKS ?s') (UpsertPayload.picks payload)\<rparr>"
    by (rule handle_accepted)
  finally show ?case
    by (simp add: snoc.IH store_all_append)
qed

lemma handle_accepted_twice:
  assumes "distinct (dict_keys (GAMES s))" "distinct (dict_keys (PICKS s))"
    and "x = Some (CRON_SECRET s)"
  shows "handle (PostIngestUpsert payload x) (handle (PostIngestUpsert payload x) s) =
         handle (PostIngestUpsert payload x) s"
proof -
  let ?s' = "handle (PostIngestUpsert payload (Some (CRON_SECRET s))) s"
  have s': "?s' = s\<lparr>GAMES := store_all Game.id (GAMES s) (UpsertPayload.games payload),
       PICKS := store_all Pick.id (PICKS s) (UpsertPayload.picks payload)\<rparr>"
    by (rule handle_accepted)
  have "handle (PostIngestUpsert payload (Some (CRON_SECRET ?s'))) ?s' =
        ?s'\<lparr>GAMES := store_all Game.id (GAMES ?s') (UpsertPayload.games payload),
       PICKS := store_all Pick.id (PICKS ?s') (UpsertPayload.picks payload)\<rparr>"
    by (rule handle_accepted)
  also have "\<dots> = ?s'"
    unfolding s' by (simp add: store_all_twice assms(1,2))
  finally have "handle (PostIngestUpsert payload (Some (CRON_SECRET ?s'))) ?s' = ?s'" .
  moreover have "CRON_SECRET ?s' = CRON_SECRET s"
    by (rule handle_CRON_SECRET)
  ultimately show ?thesis
    by (simp only: assms(3))
qed

lemma keyed_by_handle:
  assumes "keyed_by Game.id (GAMES s)" "keyed_by Pick.id (PICKS s)"
  shows "keyed_by Game.id (GAMES (handle r s)) \<and> keyed_by Pick.id (PICKS (handle r s))"
  using assms
  by (cases r)
     (simp_all add: health_def picks_today_def games_today_def ingest_upsert_def Let_def
        keyed_by_store_all)

lemma keyed_by_serve:
  "keyed_by Game.id (GAMES (serve rs (startup environ))) \<and>
   keyed_by Pick.id (PICKS (serve rs (startup environ)))"
proof (induction rs rule: rev_induct)
  case Nil
  then show ?case by (simp add: serve_Nil startup_def keyed_by_def dict_keys_def)
next
  case (snoc r rs)
  then show ?case by (simp only: serve_snoc keyed_by_handle)
qed

lemma keyed_by_distinct_keys: "keyed_by key d \<Longrightarrow> distinct (dict_keys d)"
  by (simp add: keyed_by_def)

lemma keyed_by_ids: "keyed_by key d \<Longrightarrow> map key (dict_values d) = dict_keys d"
  by (induction d) (auto simp: keyed_by_def dict_values_def dict_keys_def)

lemma keyed_by_get: "keyed_by key d \<Longrightarrow> dict_get d k = Some v \<Longrightarrow> key v = k"
  by (auto simp: keyed_by_def dict_get_def list_all_iff dest: map_of_SomeD)

lemma keyed_by_distinct_values: "keyed_by key d \<Longrightarrow> distinct (dict_values d)"
  using distinct_map [of key "dict_values d"] by (simp add: keyed_by_ids keyed_by_def)

lemma dom_dict_get: "dom (dict_get d) = set (dict_keys d)"
  by (auto simp: dict_get_def [abs_def] dict_keys_def dom_map_of_conv_image_fst)

lemma ran_dict_get: "distinct (dict_keys d) \<Longrightarrow> ran (dict_get d) = set (dict_values d)"
  by (simp add: dict_get_def [abs_def] dict_keys_def dict_values_def ran_distinct)

lemma len_card_dom: "distinct (dict_keys d) \<Longrightarrow> len d = int (card (dom (dict_get d)))"
  by (simp add: dom_dict_get len_card_keys)

lemma length_values_card_dom:
  "distinct (dict_keys d) \<Longrightarrow> length (dict_values d) = card (dom (dict_get d))"
  using len_card_dom [of d] by (simp add: len_def dict_values_def)

lemma handle_no_data: "\<not> carries_data (CRON_SECRET s) r \<Longrightarrow> GAMES s = [] \<Longrightarrow> PICKS s = [] \<Longrightarrow> handle r s = s"
  by (cases r)
     (auto simp: health_def picks_today_def games_today_def ingest_upsert_def Let_def store_all_Nil)

lemma serve_no_data:
  "\<not> list_ex (carries_data (CRON_SECRET (startup environ))) rs \<Longrightarrow>
   serve rs (startup environ) = startup environ"
proof (induction rs rule: rev_induct)
  case Nil
  then show ?case by (simp add: serve_Nil)
next
  case (snoc r rs)
  then have "serve rs (startup environ) = startup environ"
    and "\<not> carries_data (CRON_SECRET (startup environ)) r"
    by simp_all
  then show ?case
    by (simp only: serve_snoc) (simp add: handle_no_data startup_def del: handle.simps)
qed


section \<open>Properties of floats\<close>




















section \<open>Properties of records that are not overwritten\<close>















section \<open>Properties of validation and of the response model\<close>










lemma sample_kwargs_id [simp]:
  "Pick_kwargs.id (pick_p1_kwargs x) = ''p1''" "Game_kwargs.id game_g1_kwargs = ''g1''"
  by (simp_all add: pick_p1_kwargs_def game_g1_kwargs_def)





section \<open>Accepted upserts\<close>

text \<open>
  Claim C1. When the supplied secret equals the configured one, the upsert writes every
  game of the payload into \<open>GAMES\<close> under its id and every pick into \<open>PICKS\<close> under its
  id, in input order: afterwards an id of the batch maps to the last record of the batch
  with that id, and every other id maps to what it mapped to before. The handler returns
  \<open>ok\<close> with the sizes of the two dictionaries after the batch, which count the keys held
  before together with the ids of the batch.
\<close>

theorem upsert_accepted_writes_all:
  assumes "x_cron_secret = Some (CRON_SECRET s)"
  shows "fst (ingest_upsert payload x_cron_secret s) =
           Inr [(''ok'', PyBool True),
                (''games'', PyInt (len (GAMES (snd (ingest_upsert payload x_cron_secret s))))),
                (''picks'', PyInt (len (PICKS (snd (ingest_upsert payload x_cron_secret s)))))]
       \<and> (\<forall>k. dict_get (GAMES (snd (ingest_upsert payload x_cron_secret s))) k =
               (case last_with Game.id k (UpsertPayload.games payload) of
                  None \<Rightarrow> dict_get (GAMES s) k | Some g \<Rightarrow> Some g))
       \<and> (\<forall>k. dict_get (PICKS (snd (ingest_upsert payload x_cron_secret s))) k =
               (case last_with Pick.id k (UpsertPayload.picks payload) of
                  None \<Rightarrow> dict_get (PICKS s) k | Some p \<Rightarrow> Some p))
       \<and> (distinct (dict_keys (GAMES s)) \<longrightarrow>
            len (GAMES (snd (ingest_upsert payload x_cron_secret s))) =
              int (card (set (dict_keys (GAMES s)) \<union> Game.id ` set (UpsertPayload.games payload))))
       \<and> (distinct (dict_keys (PICKS s)) \<longrightarrow>
            len (PICKS (snd (ingest_upsert payload x_cron_secret s))) =
              int (card (set (dict_keys (PICKS s)) \<union> Pick.id ` set (UpsertPayload.picks payload))))
       \<and> CRON_SECRET (snd (ingest_upsert payload x_cron_secret s)) = CRON_SECRET s"
  using assms
  by (simp add: ingest_upsert_accepted dict_get_store_all len_card_keys distinct_keys_store_all
      set_keys_store_all)

theorem upsert_accepted_writes_all_witness:
  "Some ''change-me'' = Some (CRON_SECRET (startup Map.empty))
   \<and> ingest_upsert
        \<lparr>UpsertPayload.games = [game_g1], UpsertPayload.picks = [pick_p1 float_0_60, pick_p1 float_0_70]\<rparr>
        (Some ''change-me'') (startup Map.empty) =
      (Inr [(''ok'', PyBool True), (''games'', PyInt 1), (''picks'', PyInt 1)],
       \<lparr>CRON_SECRET = ''change-me'', GAMES = [(''g1'', game_g1)],
        PICKS = [(''p1'', pick_p1 float_0_70)]\<rparr>)
   \<and> dict_get (PICKS (snd (ingest_upsert
        \<lparr>UpsertPayload.games = [game_g1], UpsertPayload.picks = [pick_p1 float_0_60, pick_p1 float_0_70]\<rparr>
        (Some ''change-me'') (startup Map.empty)))) ''p1'' = Some (pick_p1 float_0_70)"
proof -
  have h: "Some ''change-me'' = Some (CRON_SECRET (startup Map.empty))" by simp
  show ?thesis
    using h upsert_accepted_writes_all [OF h,
        of "\<lparr>UpsertPayload.games = [game_g1], UpsertPayload.picks = [pick_p1 float_0_60, pick_p1 float_0_70]\<rparr>"]
    by (simp add: ingest_upsert_def store_all_def len_def dict_get_def last_with_def)
qed

section \<open>Rejected upserts\<close>

text \<open>
  Claim C2. The configured secret is the value of \<open>CRON_SECRET\<close> in the environment at
  startup, or \<open>change-me\<close> when the variable is unset. Whatever the two dictionaries hold,
  an upsert whose header is missing or differs from the configured secret raises
  \<open>HTTPException 401\<close> and leaves the module state as it was, so the two list handlers
  return what they returned before.
\<close>

theorem upsert_rejected_no_mutation:
  assumes "s = \<lparr>CRON_SECRET = CRON_SECRET (startup environ), GAMES = G, PICKS = P\<rparr>"
    and "x_cron_secret = None \<or> (\<exists>v. x_cron_secret = Some v \<and> v \<noteq> CRON_SECRET (startup environ))"
  shows "ingest_upsert payload x_cron_secret s = (Inl (HTTPException 401 ''invalid secret''), s)
       \<and> GAMES (snd (ingest_upsert payload x_cron_secret s)) = G
       \<and> PICKS (snd (ingest_upsert payload x_cron_secret s)) = P
       \<and> fst (picks_today (snd (ingest_upsert payload x_cron_secret s))) = fst (picks_today s)
       \<and> fst (games_today (snd (ingest_upsert payload x_cron_secret s))) = fst (games_today s)
       \<and> CRON_SECRET (startup environ) =
           (case environ ''CRON_SECRET'' of None \<Rightarrow> ''change-me'' | Some v \<Rightarrow> v)"
proof -
  from assms have "x_cron_secret \<noteq> Some (CRON_SECRET s)"
    by auto
  then have "ingest_upsert payload x_cron_secret s = (Inl (HTTPException 401 ''invalid secret''), s)"
    by (rule ingest_upsert_rejected)
  with assms(1) show ?thesis
    by (simp add: getenv_def startup_def)
qed

theorem upsert_rejected_no_mutation_witness:
  "\<lparr>CRON_SECRET = ''change-me'', GAMES = [], PICKS = []\<rparr> =
     \<lparr>CRON_SECRET = CRON_SECRET (startup Map.empty), GAMES = [], PICKS = []\<rparr>
   \<and> CRON_SECRET (startup Map.empty) = ''change-me''
   \<and> ingest_upsert \<lparr>UpsertPayload.games = [game_g1], UpsertPayload.picks = []\<rparr> (Some ''wrong'')
        \<lparr>CRON_SECRET = ''change-me'', GAMES = [], PICKS = []\<rparr> =
       (Inl (HTTPException 401 ''invalid secret''), \<lparr>CRON_SECRET = ''change-me'', GAMES = [], PICKS = []\<rparr>)
   \<and> fst (games_today (snd (ingest_upsert \<lparr>UpsertPayload.games = [game_g1], UpsertPayload.picks = []\<rparr>
        (Some ''wrong'') \<lparr>CRON_SECRET = ''change-me'', GAMES = [], PICKS = []\<rparr>))) = Inr []"
proof -
  have h1: "\<lparr>CRON_SECRET = ''change-me'', GAMES = [], PICKS = []\<rparr> =
     \<lparr>CRON_SECRET = CRON_SECRET (startup Map.empty), GAMES = [], PICKS = []\<rparr>"
    by simp
  have h2: "Some ''wrong'' = None \<or>
     (\<exists>v. Some ''wrong'' = Some v \<and> v \<noteq> CRON_SECRET (startup Map.empty))"
    by simp
  show ?thesis
    using upsert_rejected_no_mutation [OF h1 h2, of "\<lparr>UpsertPayload.games = [game_g1], UpsertPayload.picks = []\<rparr>"]
    by (simp add: getenv_def games_today_def dict_values_def)
qed

section \<open>Histories of accepted upserts\<close>

text \<open>
  Claim C3. Start from the empty store and send any sequence of upserts that carry the
  configured secret. Afterwards each dictionary maps an id to the last record submitted
  with that id anywhere in the history, and to nothing when no record had that id: the
  record as a whole, with no field of an earlier record left in it. Sending the same
  payload a second time leaves the module state exactly as the first time left it.
\<close>

theorem authorized_history_last_write_wins:
  "(\<forall>k. dict_get (GAMES (serve (authorized (CRON_SECRET (startup environ)) payloads) (startup environ))) k =
          last_with Game.id k (concat (map UpsertPayload.games payloads)))
   \<and> (\<forall>k. dict_get (PICKS (serve (authorized (CRON_SECRET (startup environ)) payloads) (startup environ))) k =
          last_with Pick.id k (concat (map UpsertPayload.picks payloads)))
   \<and> serve (authorized (CRON_SECRET (startup environ)) (payloads @ [payload, payload])) (startup environ) =
      serve (authorized (CRON_SECRET (startup environ)) (payloads @ [payload])) (startup environ)"
proof -
  let ?init = "startup environ"
  let ?fin = "serve (authorized (CRON_SECRET ?init) payloads) ?init"
  have empty: "dict_get (GAMES ?init) k = None" "dict_get (PICKS ?init) k' = None" for k k'
    by (simp_all add: startup_def dict_get_def)
  have "dict_get (GAMES ?fin) k =
          dict_get (store_all Game.id (GAMES ?init) (concat (map UpsertPayload.games payloads))) k" for k
    by (simp only: serve_authorized) simp
  moreover have "dict_get (PICKS ?fin) k =
          dict_get (store_all Pick.id (PICKS ?init) (concat (map UpsertPayload.picks payloads))) k" for k
    by (simp only: serve_authorized) simp
  ultimately have lookups:
    "dict_get (GAMES ?fin) k = last_with Game.id k (concat (map UpsertPayload.games payloads))"
    "dict_get (PICKS ?fin) k' = last_with Pick.id k' (concat (map UpsertPayload.picks payloads))" for k k'
    by (simp_all only: dict_get_store_all empty split: option.splits) simp_all
  have "distinct (dict_keys (GAMES ?init))" "distinct (dict_keys (PICKS ?init))"
    by (simp_all add: startup_def dict_keys_def)
  then have dist: "distinct (dict_keys (GAMES ?fin))" "distinct (dict_keys (PICKS ?fin))"
    by (simp_all only: serve_authorized) (simp_all add: distinct_keys_store_all)
  have sec: "Some (CRON_SECRET ?init) = Some (CRON_SECRET ?fin)"
    by (simp add: serve_CRON_SECRET)
  have "serve (authorized (CRON_SECRET ?init) (payloads @ [payload, payload])) ?init =
        handle (PostIngestUpsert payload (Some (CRON_SECRET ?init)))
          (handle (PostIngestUpsert payload (Some (CRON_SECRET ?init))) ?fin)"
    by (simp add: authorized_def serve_append serve_Cons serve_Nil del: handle.simps)
  also have "\<dots> = handle (PostIngestUpsert payload (Some (CRON_SECRET ?init))) ?fin"
    by (rule handle_accepted_twice [OF dist sec])
  also have "\<dots> = serve (authorized (CRON_SECRET ?init) (payloads @ [payload])) ?init"
    by (simp add: authorized_def serve_append serve_Cons serve_Nil del: handle.simps)
  finally show ?thesis
    using lookups by blast
qed

theorem authorized_history_last_write_wins_witness:
  "dict_get (PICKS (serve (authorized (CRON_SECRET (startup Map.empty))
       [\<lparr>UpsertPayload.games = [], UpsertPayload.picks = [pick_p1 float_0_60]\<rparr>,
        \<lparr>UpsertPayload.games = [], UpsertPayload.picks = [pick_p1 float_0_70]\<rparr>])
       (startup Map.empty))) ''p1'' = Some (pick_p1 float_0_70)
   \<and> fst (picks_today (serve (authorized (CRON_SECRET (startup Map.empty))
       [\<lparr>UpsertPayload.games = [], UpsertPayload.picks = [pick_p1 float_0_60]\<rparr>,
        \<lparr>UpsertPayload.games = [], UpsertPayload.picks = [pick_p1 float_0_70]\<rparr>])
       (startup Map.empty))) = Inr [pick_p1 float_0_70]
   \<and> serve (authorized (CRON_SECRET (startup Map.empty))
       ([\<lparr>UpsertPayload.games = [], UpsertPayload.picks = [pick_p1 float_0_60]\<rparr>] @
        [\<lparr>UpsertPayload.games = [game_g1], UpsertPayload.picks = [pick_p1 float_0_70]\<rparr>,
         \<lparr>UpsertPayload.games = [game_g1], UpsertPayload.picks = [pick_p1 float_0_70]\<rparr>]))
       (startup Map.empty) =
      \<lparr>CRON_SECRET = ''change-me'', GAMES = [(''g1'', game_g1)],
       PICKS = [(''p1'', pick_p1 float_0_70)]\<rparr>"
  using authorized_history_last_write_wins [of Map.empty
      "[\<lparr>UpsertPayload.games = [], UpsertPayload.picks = [pick_p1 float_0_60]\<rparr>,
        \<lparr>UpsertPayload.games = [], UpsertPayload.picks = [pick_p1 float_0_70]\<rparr>]"]
    authorized_history_last_write_wins [of Map.empty
      "[\<lparr>UpsertPayload.games = [], UpsertPayload.picks = [pick_p1 float_0_60]\<rparr>]"
      "\<lparr>UpsertPayload.games = [game_g1], UpsertPayload.picks = [pick_p1 float_0_70]\<rparr>"]
  by (simp add: authorized_def serve_Nil serve_Cons ingest_upsert_def store_all_def picks_today_def
      dict_values_def last_with_def)

section \<open>Round trip\<close>




section \<open>Health check\<close>

text \<open>
  Claim C5. In every state, \<open>health\<close> returns (it never raises) \<open>ok\<close> true with the
  length of \<open>PICKS\<close> and the length of \<open>GAMES\<close> at that moment, and it leaves the module
  state as it was. In every state that the service can reach, these lengths are the
  numbers of keys of the two dictionaries. At startup \<open>health\<close> returns \<open>ok\<close> true, 0 picks
  and 0 games.
\<close>

theorem health_reports_sizes:
  "health s =
     (Inr [(''ok'', PyBool True), (''picks'', PyInt (len (PICKS s))),
           (''games'', PyInt (len (GAMES s)))], s)
   \<and> (s = serve rs (startup environ) \<longrightarrow>
        len (PICKS s) = int (card (dom (dict_get (PICKS s))))
      \<and> len (GAMES s) = int (card (dom (dict_get (GAMES s)))))
   \<and> health (startup environ) =
       (Inr [(''ok'', PyBool True), (''picks'', PyInt 0), (''games'', PyInt 0)],
        startup environ)"
proof -
  have "len (PICKS s) = int (card (dom (dict_get (PICKS s))))
      \<and> len (GAMES s) = int (card (dom (dict_get (GAMES s))))"
    if reach: "s = serve rs (startup environ)"
  proof -
    have k: "keyed_by Pick.id (PICKS s)" "keyed_by Game.id (GAMES s)"
      using keyed_by_serve [of rs environ] reach by simp_all
    have "distinct (dict_keys (PICKS s))" "distinct (dict_keys (GAMES s))"
      by (rule keyed_by_distinct_keys, rule k)+
    then show ?thesis
      by (simp add: len_card_dom)
  qed
  moreover have "health s =
     (Inr [(''ok'', PyBool True), (''picks'', PyInt (len (PICKS s))),
           (''games'', PyInt (len (GAMES s)))], s)"
    by (simp add: health_def)
  moreover have "health (startup environ) =
       (Inr [(''ok'', PyBool True), (''picks'', PyInt 0), (''games'', PyInt 0)],
        startup environ)"
    by (simp add: health_def startup_def len_def)
  ultimately show ?thesis
    by blast
qed

theorem health_reports_sizes_witness:
  "health (serve [PostIngestUpsert
        \<lparr>UpsertPayload.games = [game_g1], UpsertPayload.picks = [pick_p1 float_0_60, pick_p1 float_0_70]\<rparr>
        (Some ''change-me'')] (startup Map.empty)) =
     (Inr [(''ok'', PyBool True), (''picks'', PyInt 1), (''games'', PyInt 1)],
      \<lparr>CRON_SECRET = ''change-me'', GAMES = [(''g1'', game_g1)],
       PICKS = [(''p1'', pick_p1 float_0_70)]\<rparr>)
   \<and> card (dom (dict_get (PICKS (serve [PostIngestUpsert
        \<lparr>UpsertPayload.games = [game_g1], UpsertPayload.picks = [pick_p1 float_0_60, pick_p1 float_0_70]\<rparr>
        (Some ''change-me'')] (startup Map.empty))))) = 1
   \<and> health (startup Map.empty) =
     (Inr [(''ok'', PyBool True), (''picks'', PyInt 0), (''games'', PyInt 0)], startup Map.empty)"
  using health_reports_sizes [where environ = Map.empty
      and rs = "[PostIngestUpsert
        \<lparr>UpsertPayload.games = [game_g1], UpsertPayload.picks = [pick_p1 float_0_60, pick_p1 float_0_70]\<rparr>
        (Some ''change-me'')]"
      and s = "serve [PostIngestUpsert
        \<lparr>UpsertPayload.games = [game_g1], UpsertPayload.picks = [pick_p1 float_0_60, pick_p1 float_0_70]\<rparr>
        (Some ''change-me'')] (startup Map.empty)"]
  by (simp add: serve_Nil serve_Cons ingest_upsert_def store_all_def len_def)

section \<open>List handlers\<close>

text \<open>
  Claim C6. In every state, \<open>picks_today\<close> returns the values of \<open>PICKS\<close> and \<open>games_today\<close>
  those of \<open>GAMES\<close>, and neither raises. In every state that the service can reach, the
  list holds exactly the records the dictionary maps some key to, each of them once, as
  many as there are keys. As long as no accepted upsert has carried a record, both return
  the empty list.
\<close>

theorem list_handlers_return_store:
  "picks_today s = (Inr (dict_values (PICKS s)), s)
   \<and> games_today s = (Inr (dict_values (GAMES s)), s)
   \<and> (s = serve rs (startup environ) \<longrightarrow>
        set (dict_values (PICKS s)) = ran (dict_get (PICKS s))
      \<and> set (dict_values (GAMES s)) = ran (dict_get (GAMES s))
      \<and> distinct (dict_values (PICKS s))
      \<and> distinct (dict_values (GAMES s))
      \<and> length (dict_values (PICKS s)) = card (dom (dict_get (PICKS s)))
      \<and> length (dict_values (GAMES s)) = card (dom (dict_get (GAMES s)))
      \<and> (\<not> list_ex (carries_data (CRON_SECRET (startup environ))) rs \<longrightarrow>
           fst (picks_today s) = Inr [] \<and> fst (games_today s) = Inr []))"
proof -
  have "set (dict_values (PICKS s)) = ran (dict_get (PICKS s))
      \<and> set (dict_values (GAMES s)) = ran (dict_get (GAMES s))
      \<and> distinct (dict_values (PICKS s))
      \<and> distinct (dict_values (GAMES s))
      \<and> length (dict_values (PICKS s)) = card (dom (dict_get (PICKS s)))
      \<and> length (dict_values (GAMES s)) = card (dom (dict_get (GAMES s)))
      \<and> (\<not> list_ex (carries_data (CRON_SECRET (startup environ))) rs \<longrightarrow>
           fst (picks_today s) = Inr [] \<and> fst (games_today s) = Inr [])"
    if reach: "s = serve rs (startup environ)"
  proof -
    have k: "keyed_by Pick.id (PICKS s)" "keyed_by Game.id (GAMES s)"
      using keyed_by_serve [of rs environ] reach by simp_all
    have d: "distinct (dict_keys (PICKS s))" "distinct (dict_keys (GAMES s))"
      by (rule keyed_by_distinct_keys, rule k)+
    have "fst (picks_today s) = Inr [] \<and> fst (games_today s) = Inr []"
      if "\<not> list_ex (carries_data (CRON_SECRET (startup environ))) rs"
      using serve_no_data [OF that] reach
      by (simp add: picks_today_def games_today_def startup_def dict_values_def)
    with k d show ?thesis
      by (simp add: ran_dict_get keyed_by_distinct_values length_values_card_dom)
  qed
  then show ?thesis
    by (simp add: picks_today_def games_today_def)
qed

theorem list_handlers_return_store_witness:
  "picks_today (serve [PostIngestUpsert
        \<lparr>UpsertPayload.games = [game_g1], UpsertPayload.picks = [pick_p1 float_0_60]\<rparr>
        (Some ''change-me''), GetHealth] (startup Map.empty)) =
     (Inr [pick_p1 float_0_60],
      \<lparr>CRON_SECRET = ''change-me'', GAMES = [(''g1'', game_g1)],
       PICKS = [(''p1'', pick_p1 float_0_60)]\<rparr>)
   \<and> ran (dict_get (GAMES (serve [PostIngestUpsert
        \<lparr>UpsertPayload.games = [game_g1], UpsertPayload.picks = [pick_p1 float_0_60]\<rparr>
        (Some ''change-me''), GetHealth] (startup Map.empty)))) = {game_g1}
   \<and> \<not> list_ex (carries_data (CRON_SECRET (startup Map.empty)))
        [GetHealth, PostIngestUpsert \<lparr>UpsertPayload.games = [game_g1], UpsertPayload.picks = []\<rparr> None,
         PostIngestUpsert \<lparr>UpsertPayload.games = [], UpsertPayload.picks = []\<rparr> (Some ''change-me'')]
   \<and> fst (games_today (serve
        [GetHealth, PostIngestUpsert \<lparr>UpsertPayload.games = [game_g1], UpsertPayload.picks = []\<rparr> None,
         PostIngestUpsert \<lparr>UpsertPayload.games = [], UpsertPayload.picks = []\<rparr> (Some ''change-me'')]
        (startup Map.empty))) = Inr []"
  using list_handlers_return_store [where environ = Map.empty
      and rs = "[PostIngestUpsert
        \<lparr>UpsertPayload.games = [game_g1], UpsertPayload.picks = [pick_p1 float_0_60]\<rparr>
        (Some ''change-me''), GetHealth]"
      and s = "serve [PostIngestUpsert
        \<lparr>UpsertPayload.games = [game_g1], UpsertPayload.picks = [pick_p1 float_0_60]\<rparr>
        (Some ''change-me''), GetHealth] (startup Map.empty)"]
    list_handlers_return_store [where environ = Map.empty
      and rs = "[GetHealth, PostIngestUpsert \<lparr>UpsertPayload.games = [game_g1], UpsertPayload.picks = []\<rparr> None,
         PostIngestUpsert \<lparr>UpsertPayload.games = [], UpsertPayload.picks = []\<rparr> (Some ''change-me'')]"
      and s = "serve [GetHealth, PostIngestUpsert \<lparr>UpsertPayload.games = [game_g1], UpsertPayload.picks = []\<rparr> None,
         PostIngestUpsert \<lparr>UpsertPayload.games = [], UpsertPayload.picks = []\<rparr> (Some ''change-me'')]
        (startup Map.empty)"]
  by (simp add: serve_Nil serve_Cons ingest_upsert_def store_all_def health_def dict_values_def)

section \<open>Uniqueness of ids\<close>

text \<open>
  Claim C7. In every state that the service can reach from the empty store, by any
  requests whatsoever, no key occurs twice in a dictionary and every key is mapped to a
  record whose \<open>id\<close> is that key; so the lists that the list handlers return hold no two
  records with the same \<open>id\<close>.
\<close>

theorem ids_unique_in_store:
  assumes "s = serve rs (startup environ)"
  shows "distinct (dict_keys (GAMES s)) \<and> distinct (dict_keys (PICKS s))
       \<and> (\<forall>k g. dict_get (GAMES s) k = Some g \<longrightarrow> Game.id g = k)
       \<and> (\<forall>k p. dict_get (PICKS s) k = Some p \<longrightarrow> Pick.id p = k)
       \<and> (\<exists>gs. fst (games_today s) = Inr gs \<and> distinct (map Game.id gs))
       \<and> (\<exists>ps. fst (picks_today s) = Inr ps \<and> distinct (map Pick.id ps))"
proof -
  have k: "keyed_by Pick.id (PICKS s)" "keyed_by Game.id (GAMES s)"
    using keyed_by_serve [of rs environ] assms by simp_all
  have d: "distinct (dict_keys (PICKS s))" "distinct (dict_keys (GAMES s))"
    by (rule keyed_by_distinct_keys, rule k)+
  with k show ?thesis
    by (auto simp: keyed_by_ids picks_today_def games_today_def dest: keyed_by_get)
qed

theorem ids_unique_in_store_witness:
  "dict_get (PICKS (serve [PostIngestUpsert
        \<lparr>UpsertPayload.games = [game_g1, game_g1], UpsertPayload.picks = [pick_p1 float_0_60, pick_p1 float_0_70]\<rparr>
        (Some ''change-me'')] (startup Map.empty))) ''p1'' = Some (pick_p1 float_0_70)
   \<and> Pick.id (pick_p1 float_0_70) = ''p1''
   \<and> dict_keys (GAMES (serve [PostIngestUpsert
        \<lparr>UpsertPayload.games = [game_g1, game_g1], UpsertPayload.picks = [pick_p1 float_0_60, pick_p1 float_0_70]\<rparr>
        (Some ''change-me'')] (startup Map.empty))) = [''g1'']
   \<and> fst (picks_today (serve [PostIngestUpsert
        \<lparr>UpsertPayload.games = [game_g1, game_g1], UpsertPayload.picks = [pick_p1 float_0_60, pick_p1 float_0_70]\<rparr>
        (Some ''change-me'')] (startup Map.empty))) = Inr [pick_p1 float_0_70]"
  using ids_unique_in_store [OF refl, of
      "[PostIngestUpsert
        \<lparr>UpsertPayload.games = [game_g1, game_g1], UpsertPayload.picks = [pick_p1 float_0_60, pick_p1 float_0_70]\<rparr>
        (Some ''change-me'')]" Map.empty]
  by (simp add: serve_Nil serve_Cons ingest_upsert_def store_all_def dict_keys_def dict_get_def
      picks_today_def dict_values_def)

section \<open>Frame of the list handlers\<close>

text \<open>
  Claim C9. In every state, \<open>picks_today\<close> and \<open>games_today\<close> leave the module state, and
  so both dictionaries, exactly as they found it.
\<close>

theorem list_handlers_read_only:
  "snd (picks_today s) = s \<and> snd (games_today s) = s
   \<and> GAMES (snd (picks_today s)) = GAMES s \<and> PICKS (snd (picks_today s)) = PICKS s
   \<and> GAMES (snd (games_today s)) = GAMES s \<and> PICKS (snd (games_today s)) = PICKS s"
  by (simp add: picks_today_def games_today_def)

theorem list_handlers_read_only_witness:
  "snd (picks_today \<lparr>CRON_SECRET = ''change-me'', GAMES = [(''g1'', game_g1)],
       PICKS = [(''p1'', pick_p1 float_0_60)]\<rparr>) =
     \<lparr>CRON_SECRET = ''change-me'', GAMES = [(''g1'', game_g1)], PICKS = [(''p1'', pick_p1 float_0_60)]\<rparr>
   \<and> snd (games_today \<lparr>CRON_SECRET = ''change-me'', GAMES = [(''g1'', game_g1)],
       PICKS = [(''p1'', pick_p1 float_0_60)]\<rparr>) =
     \<lparr>CRON_SECRET = ''change-me'', GAMES = [(''g1'', game_g1)], PICKS = [(''p1'', pick_p1 float_0_60)]\<rparr>"
  using list_handlers_read_only [of "\<lparr>CRON_SECRET = ''change-me'', GAMES = [(''g1'', game_g1)],
       PICKS = [(''p1'', pick_p1 float_0_60)]\<rparr>"]
  by simp

section \<open>The empty payload\<close>

text \<open>
  Claim C10. In every state, an accepted upsert whose \<open>games\<close> and \<open>picks\<close> are both empty
  (which is also the payload built when both fields are omitted) leaves the module state
  as it was and returns \<open>ok\<close> true with the current sizes of the two dictionaries.
\<close>

theorem upsert_empty_payload:
  assumes "x_cron_secret = Some (CRON_SECRET s)"
  shows "ingest_upsert \<lparr>UpsertPayload.games = [], UpsertPayload.picks = []\<rparr> x_cron_secret s =
           (Inr [(''ok'', PyBool True), (''games'', PyInt (len (GAMES s))),
                 (''picks'', PyInt (len (PICKS s)))], s)
       \<and> UpsertPayload_init \<lparr>UpsertPayload_kwargs.games = None, UpsertPayload_kwargs.picks = None\<rparr> =
           \<lparr>UpsertPayload.games = [], UpsertPayload.picks = []\<rparr>"
  using assms
  by (simp add: ingest_upsert_def Let_def store_all_Nil UpsertPayload_init_def field_default_def)

theorem upsert_empty_payload_witness:
  "Some ''s3cret'' = Some (CRON_SECRET \<lparr>CRON_SECRET = ''s3cret'', GAMES = [(''g1'', game_g1)],
       PICKS = [(''p1'', pick_p1 float_0_60)]\<rparr>)
   \<and> ingest_upsert \<lparr>UpsertPayload.games = [], UpsertPayload.picks = []\<rparr> (Some ''s3cret'')
       \<lparr>CRON_SECRET = ''s3cret'', GAMES = [(''g1'', game_g1)], PICKS = [(''p1'', pick_p1 float_0_60)]\<rparr> =
     (Inr [(''ok'', PyBool True), (''games'', PyInt 1), (''picks'', PyInt 1)],
      \<lparr>CRON_SECRET = ''s3cret'', GAMES = [(''g1'', game_g1)], PICKS = [(''p1'', pick_p1 float_0_60)]\<rparr>)"
proof -
  have h: "Some ''s3cret'' = Some (CRON_SECRET \<lparr>CRON_SECRET = ''s3cret'', GAMES = [(''g1'', game_g1)],
       PICKS = [(''p1'', pick_p1 float_0_60)]\<rparr>)"
    by simp
  show ?thesis
    using upsert_empty_payload [OF h] by (simp add: len_def)
qed

section \<open>No range check on \<open>hit_prob\<close>\<close>




end
